theory Spec2Isabelle
  imports Main
begin

section \<open>JavaScript values used by the two components\<close>

text \<open>
  A JavaScript number as the comparators produce it. Every number that occurs is an
  integer (a rank, a literal, a millisecond time stamp or a difference of two of them)
  or \<open>NaN\<close>; \<open>Array.prototype.sort\<close> only reads the sign of a comparator's result.
\<close>

datatype jsnum = Num int | NaN

text \<open>The binary \<open>-\<close> of two numbers: \<open>NaN\<close> as soon as one operand is \<open>NaN\<close>.\<close>

fun js_sub :: "jsnum \<Rightarrow> jsnum \<Rightarrow> jsnum" where
  "js_sub (Num x) (Num y) = Num (x - y)"
| "js_sub _ _ = NaN"

text \<open>
  What a property read on the object literal \<open>priorityOrder\<close> can give: one of its own
  numbers, or an object (a function or \<open>Object.prototype\<close> itself) reached through the
  prototype chain. \<open>None\<close> stands for \<open>undefined\<close>.
\<close>

datatype jsval = JNumber int | JObject

text \<open>\<open>v || 0\<close>: \<open>undefined\<close> and the number 0 are falsy, everything else is kept.\<close>

fun orZero :: "jsval option \<Rightarrow> jsval" where
  "orZero None = JNumber 0"
| "orZero (Some (JNumber n)) = (if n = 0 then JNumber 0 else JNumber n)"
| "orZero (Some JObject) = JObject"

text \<open>\<open>ToNumber\<close>, applied by \<open>-\<close> to its operands: an object or function is \<open>NaN\<close>.\<close>

fun toNumber :: "jsval \<Rightarrow> jsnum" where
  "toNumber (JNumber n) = Num n"
| "toNumber JObject = NaN"

text \<open>
  \<open>!x\<close> on a value of type \<open>string | null\<close> is false exactly when \<open>x\<close> is a non-empty
  string: \<open>null\<close> and the empty string are both falsy.
\<close>

fun truthy :: "string option \<Rightarrow> bool" where
  "truthy None = False"
| "truthy (Some s) = (s \<noteq> [])"

text \<open>
  The parts of the JavaScript runtime whose result depends on the engine and the locale:
  \<open>new Date(s).getTime()\<close> (\<open>NaN\<close> for a string that is no date) and
  \<open>a.localeCompare(b)\<close>. The components are parametrised by them.
\<close>

record runtime =
  getTime :: "string \<Rightarrow> jsnum"
  localeCompare :: "string \<Rightarrow> string \<Rightarrow> int"

text \<open>
  \<open>Array.prototype.sort(cmp)\<close>: a stable sort that places \<open>x\<close> after \<open>y\<close> only when
  \<open>cmp(x, y) > 0\<close>; a \<open>NaN\<close> result counts as 0. Written as a stable insertion from the
  right end of the array. ECMAScript fixes the resulting order only where the comparator
  is consistent on the array. Where it is not (a \<open>NaN\<close> from an unparsable time stamp or
  from a priority that names an inherited property can tie an element with two others
  that do not tie with each other) the order is implementation-defined and engines
  differ on arrays of four or more elements; \<open>js_sort\<close> then gives one rearrangement of
  the array, and nothing proved below about an order rests on it there: the orders
  stated are those of pairs, on which every engine agrees.
\<close>

fun comesAfter :: "jsnum \<Rightarrow> bool" where
  "comesAfter (Num v) = (0 < v)"
| "comesAfter NaN = False"

fun js_insert :: "('a \<Rightarrow> 'a \<Rightarrow> jsnum) \<Rightarrow> 'a \<Rightarrow> 'a list \<Rightarrow> 'a list" where
  "js_insert cmp x [] = [x]"
| "js_insert cmp x (y # ys) =
     (if comesAfter (cmp x y) then y # js_insert cmp x ys else x # y # ys)"

definition js_sort :: "('a \<Rightarrow> 'a \<Rightarrow> jsnum) \<Rightarrow> 'a list \<Rightarrow> 'a list" where
  "js_sort cmp xs = foldr (js_insert cmp) xs []"

section \<open>Task Collection View (TasksList.tsx)\<close>

subsection \<open>Data\<close>

text \<open>
  \<open>interface Task\<close>. The fields hold what the JSON of the API holds, so \<open>priority\<close> is a
  string or \<open>null\<close> at run time, whatever the declared union says.
\<close>

record task =
  task_id :: string
  title :: string
  dueDate :: "string option"
  priority :: "string option"
  createdAt :: string
  updatedAt :: string

datatype toastType = Success | Error

record toast =
  message :: string
  toast_type :: toastType

datatype SortOption = SortDueDate | SortPriority | SortCreatedAt | SortUpdatedAt | SortTitle

datatype viewMode = Grid | ListView

record tasksComponent =
  tasks :: "task list"
  viewMode :: viewMode
  selectedTasks :: "string list"
  isDeleteModalOpen :: bool
  tasksToDelete :: "string list"
  toast :: "toast option"
  currentSort :: "SortOption option"
  originalOrder :: "task list"

subsection \<open>sortTasks\<close>

text \<open>
  The names every object literal inherits from \<open>Object.prototype\<close>: a read of one of
  them on \<open>priorityOrder\<close> gives a function (or, for \<open>__proto__\<close>, the prototype object).
\<close>

definition objectPrototypeKeys :: "string list" where
  "objectPrototypeKeys =
     [''constructor'', ''hasOwnProperty'', ''isPrototypeOf'', ''propertyIsEnumerable'',
      ''toLocaleString'', ''toString'', ''valueOf'', ''__proto__'',
      ''__defineGetter__'', ''__defineSetter__'', ''__lookupGetter__'', ''__lookupSetter__'']"

text \<open>The property key a priority is converted to: \<open>null\<close> becomes the key \<open>"null"\<close>.\<close>

fun propertyKey :: "string option \<Rightarrow> string" where
  "propertyKey None = ''null''"
| "propertyKey (Some s) = s"

text \<open>\<open>priorityOrder[k]\<close> for \<open>priorityOrder = { High: 3, Medium: 2, Low: 1, null: 0 }\<close>.\<close>

definition priorityOrder :: "string \<Rightarrow> jsval option" where
  "priorityOrder k =
     (if k = ''High'' then Some (JNumber 3)
      else if k = ''Medium'' then Some (JNumber 2)
      else if k = ''Low'' then Some (JNumber 1)
      else if k = ''null'' then Some (JNumber 0)
      else if k \<in> set objectPrototypeKeys then Some JObject
      else None)"

text \<open>The operand \<open>(priorityOrder[t.priority] || 0)\<close>.\<close>

definition priorityRank :: "string option \<Rightarrow> jsval" where
  "priorityRank p = orZero (priorityOrder (propertyKey p))"

text \<open>
  \<open>new Date(d).getTime()\<close> for \<open>d\<close> of type \<open>string | null\<close>: \<open>new Date(null)\<close> is the epoch.
\<close>

fun newDate_getTime :: "runtime \<Rightarrow> string option \<Rightarrow> jsnum" where
  "newDate_getTime rt None = Num 0"
| "newDate_getTime rt (Some d) = getTime rt d"

text \<open>The comparator passed to \<open>sort\<close> in \<open>sortTasks\<close>, one case per sort option.\<close>

fun compareTasks :: "runtime \<Rightarrow> SortOption \<Rightarrow> task \<Rightarrow> task \<Rightarrow> jsnum" where
  "compareTasks rt SortDueDate a b =
     (if \<not> truthy (dueDate a) \<and> \<not> truthy (dueDate b) then Num 0
      else if \<not> truthy (dueDate a) then Num 1
      else if \<not> truthy (dueDate b) then Num (- 1)
      else js_sub (newDate_getTime rt (dueDate b)) (newDate_getTime rt (dueDate a)))"
| "compareTasks rt SortPriority a b =
     js_sub (toNumber (priorityRank (priority b))) (toNumber (priorityRank (priority a)))"
| "compareTasks rt SortCreatedAt a b =
     js_sub (getTime rt (createdAt b)) (getTime rt (createdAt a))"
| "compareTasks rt SortUpdatedAt a b =
     js_sub (getTime rt (updatedAt b)) (getTime rt (updatedAt a))"
| "compareTasks rt SortTitle a b = Num (localeCompare rt (title a) (title b))"

definition sortTasks :: "runtime \<Rightarrow> SortOption \<Rightarrow> tasksComponent \<Rightarrow> tasksComponent" where
  "sortTasks rt option s = s\<lparr>tasks := js_sort (compareTasks rt option) (tasks s)\<rparr>"

subsection \<open>The network and the observable effects\<close>

text \<open>
  What \<open>await fetch(...)\<close> gives: the promise is rejected (transport failure), or there
  is a response with its \<open>ok\<close> flag and the value of \<open>response.json()\<close>, \<open>None\<close> when
  parsing the body is rejected.
\<close>

datatype 'b response = Rejected | Response bool "'b option"

text \<open>The JSON body of a request \<open>POST /api/tasks\<close>.\<close>

record newTask =
  new_title :: string
  new_description :: string
  new_dueDate :: string
  new_priority :: string
  new_status :: string
  new_tags :: string

datatype request = GET | POST newTask | DELETE string

text \<open>What is recorded of a response: whether it came, its \<open>ok\<close> flag, whether its body parses.\<close>

datatype outcome = NoResponse | Answered bool bool

fun outcome_of :: "'b response \<Rightarrow> outcome" where
  "outcome_of Rejected = NoResponse"
| "outcome_of (Response ok body) = Answered ok (body \<noteq> None)"

text \<open>
  The body of a failed creation, as \<open>errorData.message\<close> reads it: the body is \<open>null\<close>
  (the property read throws), or a value whose \<open>message\<close> is a string or \<open>undefined\<close>.
\<close>

datatype errorData = JsonNull | JsonValue "string option"

text \<open>
  The Task API is an external collaborator: any deterministic server with a state of
  type \<open>'w\<close>, answering the three requests the components issue. \<open>'t\<close> is the type of
  the task records in the array that \<open>GET /api/tasks\<close> returns.
\<close>

record ('w, 't) api =
  get_tasks :: "'w \<Rightarrow> 't list response \<times> 'w"
  post_task :: "newTask \<Rightarrow> 'w \<Rightarrow> errorData response \<times> 'w"
  delete_task :: "string \<Rightarrow> 'w \<Rightarrow> unit response \<times> 'w"

text \<open>
  Everything a handler does outside the component state: the server's state, the
  requests issued with their outcomes, the lines given to \<open>console.error\<close>, and the
  toasts emitted, each in order.
\<close>

record 'w world =
  server :: 'w
  network :: "(request \<times> outcome) list"
  console :: "string list"
  emitted :: "toast list"

definition fresh :: "'w \<Rightarrow> 'w world" where
  "fresh sv = \<lparr>server = sv, network = [], console = [], emitted = []\<rparr>"

definition send :: "request \<Rightarrow> ('w \<Rightarrow> 'b response \<times> 'w) \<Rightarrow> 'w world \<Rightarrow> 'b response \<times> 'w world" where
  "send req answer w =
     (let (r, sv) = answer (server w)
      in (r, w\<lparr>server := sv, network := network w @ [(req, outcome_of r)]\<rparr>))"

definition console_error :: "string \<Rightarrow> 'w world \<Rightarrow> 'w world" where
  "console_error line w = w\<lparr>console := console w @ [line]\<rparr>"

text \<open>Template literals print a count in decimal.\<close>

definition digitChar :: "nat \<Rightarrow> char" where
  "digitChar d =
     (if d = 0 then CHR ''0'' else if d = 1 then CHR ''1'' else if d = 2 then CHR ''2''
      else if d = 3 then CHR ''3'' else if d = 4 then CHR ''4'' else if d = 5 then CHR ''5''
      else if d = 6 then CHR ''6'' else if d = 7 then CHR ''7'' else if d = 8 then CHR ''8''
      else CHR ''9'')"

function toString :: "nat \<Rightarrow> string" where
  "toString n =
     (if n < 10 then [digitChar n] else toString (n div 10) @ [digitChar (n mod 10)])"
  by pat_completeness auto
termination
  by (relation "measure (\<lambda>n. n)") auto

declare toString.simps [simp del]

subsection \<open>Handlers\<close>

text \<open>
  Each handler is run to completion: the state it leaves once every request it issued
  has settled and the effects it triggered have run. \<open>toast\<close> holds the toast on
  display, a new one replacing the old; the timer that clears it after three seconds is
  left out, and so is the clock of the Dashboard.
\<close>

definition showToast ::
  "string \<Rightarrow> toastType \<Rightarrow> tasksComponent \<times> 'w world \<Rightarrow> tasksComponent \<times> 'w world" where
  "showToast msg ty p =
     ((fst p)\<lparr>toast := Some \<lparr>message = msg, toast_type = ty\<rparr>\<rparr>,
      (snd p)\<lparr>emitted := emitted (snd p) @ [\<lparr>message = msg, toast_type = ty\<rparr>]\<rparr>)"

text \<open>
  The effect on \<open>[currentSort, originalOrder]\<close>: it runs after a render in which one of
  the two has changed.
\<close>

definition sortEffect :: "runtime \<Rightarrow> tasksComponent \<Rightarrow> tasksComponent" where
  "sortEffect rt s =
     (case currentSort s of
        Some option \<Rightarrow> sortTasks rt option s
      | None \<Rightarrow> s\<lparr>tasks := originalOrder s\<rparr>)"

text \<open>
  \<open>fetchTasks\<close> after its request: an \<open>ok\<close> response whose body parses replaces both
  copies (and the effect above runs on the new \<open>originalOrder\<close>); everything else is
  thrown, caught, logged and shown.
\<close>

fun fetchTasks_settle ::
  "runtime \<Rightarrow> task list response \<Rightarrow> tasksComponent \<times> 'w world \<Rightarrow> tasksComponent \<times> 'w world" where
  "fetchTasks_settle rt (Response True (Some data)) (s, w) =
     (sortEffect rt (s\<lparr>tasks := data, originalOrder := data\<rparr>), w)"
| "fetchTasks_settle rt _ (s, w) =
     showToast ''Failed to fetch tasks'' Error (s, console_error ''Error fetching tasks:'' w)"

definition fetchTasks ::
  "runtime \<Rightarrow> ('w, task) api \<Rightarrow> tasksComponent \<times> 'w world \<Rightarrow> tasksComponent \<times> 'w world" where
  "fetchTasks rt api p =
     (let (r, w1) = send GET (get_tasks api) (snd p)
      in fetchTasks_settle rt r (fst p, w1))"

definition toggleViewMode :: "tasksComponent \<Rightarrow> tasksComponent" where
  "toggleViewMode s = s\<lparr>viewMode := (if viewMode s = Grid then ListView else Grid)\<rparr>"

definition toggleTaskSelection :: "string \<Rightarrow> tasksComponent \<Rightarrow> tasksComponent" where
  "toggleTaskSelection taskId s =
     s\<lparr>selectedTasks :=
         (if taskId \<in> set (selectedTasks s)
          then filter (\<lambda>i. i \<noteq> taskId) (selectedTasks s)
          else selectedTasks s @ [taskId])\<rparr>"

definition selectAllTasks :: "tasksComponent \<Rightarrow> tasksComponent" where
  "selectAllTasks s = s\<lparr>selectedTasks := map task_id (tasks s)\<rparr>"

definition cancelSelection :: "tasksComponent \<Rightarrow> tasksComponent" where
  "cancelSelection s = s\<lparr>selectedTasks := []\<rparr>"

definition openDeleteModal :: "tasksComponent \<Rightarrow> tasksComponent" where
  "openDeleteModal s = s\<lparr>tasksToDelete := selectedTasks s, isDeleteModalOpen := True\<rparr>"

definition closeDeleteModal :: "tasksComponent \<Rightarrow> tasksComponent" where
  "closeDeleteModal s = s\<lparr>isDeleteModalOpen := False, tasksToDelete := []\<rparr>"

text \<open>
  The \<open>for\<close> loop of \<open>deleteSelectedTasks\<close>, one request per id, awaited in turn; the
  accumulator carries \<open>successCount\<close> and \<open>errorCount\<close>.
\<close>

fun deleteLoop ::
  "('w, 't) api \<Rightarrow> string list \<Rightarrow> 'w world \<times> nat \<times> nat \<Rightarrow> 'w world \<times> nat \<times> nat" where
  "deleteLoop api [] acc = acc"
| "deleteLoop api (taskId # rest) (w, successCount, errorCount) =
     (case send (DELETE taskId) (delete_task api taskId) w of
        (Response True _, w1) \<Rightarrow> deleteLoop api rest (w1, successCount + 1, errorCount)
      | (_, w1) \<Rightarrow>
          deleteLoop api rest
            (console_error (''Error deleting task '' @ taskId @ '':'') w1,
             successCount, errorCount + 1))"

text \<open>
  \<open>fetchTasks()\<close> is not awaited: its request goes out, the selection is cleared and the
  modal closed, and the response is handled afterwards.
\<close>

definition deleteSelectedTasks ::
  "runtime \<Rightarrow> ('w, task) api \<Rightarrow> tasksComponent \<times> 'w world \<Rightarrow> tasksComponent \<times> 'w world" where
  "deleteSelectedTasks rt api p =
     (let (w1, successCount, errorCount) = deleteLoop api (tasksToDelete (fst p)) (snd p, 0, 0);
          p1 = (if successCount > 0
                then showToast (''Successfully deleted '' @ toString successCount @ '' task(s)'')
                       Success (fst p, w1)
                else (fst p, w1));
          p2 = (if errorCount > 0
                then showToast (''Failed to delete '' @ toString errorCount @ '' task(s)'') Error p1
                else p1);
          (r, w3) = send GET (get_tasks api) (snd p2)
      in fetchTasks_settle rt r (closeDeleteModal ((fst p2)\<lparr>selectedTasks := []\<rparr>), w3))"

definition handleSortClick :: "runtime \<Rightarrow> SortOption \<Rightarrow> tasksComponent \<Rightarrow> tasksComponent" where
  "handleSortClick rt option s =
     sortEffect rt
       (if currentSort s = Some option then s\<lparr>currentSort := None\<rparr>
        else s\<lparr>currentSort := Some option\<rparr>)"

definition handleDeleteTask ::
  "runtime \<Rightarrow> ('w, task) api \<Rightarrow> string \<Rightarrow> tasksComponent \<times> 'w world \<Rightarrow> tasksComponent \<times> 'w world" where
  "handleDeleteTask rt api taskId p =
     (case send (DELETE taskId) (delete_task api taskId) (snd p) of
        (Response True _, w1) \<Rightarrow>
          fetchTasks rt api (showToast ''Task deleted successfully'' Success (fst p, w1))
      | (_, w1) \<Rightarrow>
          showToast ''Failed to delete task'' Error
            (fst p, console_error (''Error deleting task '' @ taskId @ '':'') w1))"

text \<open>
  Mounting: the \<open>useState\<close> initial values, then the two mount effects. \<open>fetchTasks()\<close>
  issues its request, the sort effect copies the still empty \<open>originalOrder\<close> into
  \<open>tasks\<close>, and the response is handled afterwards.
\<close>

definition initialState :: "task list \<Rightarrow> tasksComponent" where
  "initialState initialTasks =
     \<lparr>tasks = initialTasks, viewMode = ListView, selectedTasks = [],
      isDeleteModalOpen = False, tasksToDelete = [], toast = None,
      currentSort = None, originalOrder = []\<rparr>"

definition mount ::
  "runtime \<Rightarrow> ('w, task) api \<Rightarrow> task list \<Rightarrow> 'w world \<Rightarrow> tasksComponent \<times> 'w world" where
  "mount rt api initialTasks w =
     (let (r, w1) = send GET (get_tasks api) w
      in fetchTasks_settle rt r (sortEffect rt (initialState initialTasks), w1))"

section \<open>Dashboard / Creation View\<close>

text \<open>
  The state of \<open>Dashboard\<close>. The fetched array is handed to the sidebar unread, so the
  type \<open>'t\<close> of its records is left open. Fields whose names the Task Collection View
  already uses carry the suffix \<open>_d\<close>.
\<close>

record 't dashboard =
  taskTitle :: string
  taskDescription :: string
  dueDate_d :: string
  priority_d :: string
  status :: string
  tags :: string
  currentDateTime :: string
  tasks_d :: "'t list"
  toast_d :: "toast option"

text \<open>
  \<open>String.prototype.trim\<close>. A \<open>char\<close> stands for a code unit below 256; the white space
  and line terminators in that range are TAB, LF, VT, FF, CR, SP and NBSP.
\<close>

definition isWhiteSpace :: "char \<Rightarrow> bool" where
  "isWhiteSpace c = (of_char c \<in> {9, 10, 11, 12, 13, 32, 160 :: nat})"

definition trim :: "string \<Rightarrow> string" where
  "trim s = rev (dropWhile isWhiteSpace (rev (dropWhile isWhiteSpace s)))"

definition setToast ::
  "toastType \<Rightarrow> string \<Rightarrow> 't dashboard \<times> 'w world \<Rightarrow> 't dashboard \<times> 'w world" where
  "setToast ty msg p =
     ((fst p)\<lparr>toast_d := Some \<lparr>message = msg, toast_type = ty\<rparr>\<rparr>,
      (snd p)\<lparr>emitted := emitted (snd p) @ [\<lparr>message = msg, toast_type = ty\<rparr>]\<rparr>)"

text \<open>\<open>fetchTasks\<close> of the Dashboard: a failure of any kind is logged and nothing else.\<close>

definition fetchTasks_d :: "('w, 't) api \<Rightarrow> 't dashboard \<times> 'w world \<Rightarrow> 't dashboard \<times> 'w world" where
  "fetchTasks_d api p =
     (case send GET (get_tasks api) (snd p) of
        (Response True (Some data), w1) \<Rightarrow> ((fst p)\<lparr>tasks_d := data\<rparr>, w1)
      | (Response True None, w1) \<Rightarrow> (fst p, console_error ''Error fetching tasks:'' w1)
      | (Response False _, w1) \<Rightarrow> (fst p, console_error ''Failed to fetch tasks'' w1)
      | (Rejected, w1) \<Rightarrow> (fst p, console_error ''Error fetching tasks:'' w1))"

definition resetForm :: "'t dashboard \<Rightarrow> 't dashboard" where
  "resetForm s =
     s\<lparr>taskTitle := [], taskDescription := [], dueDate_d := [], priority_d := [],
       status := ''Not Started'', tags := []\<rparr>"

text \<open>The \<open>catch\<close> block of \<open>handleSubmit\<close>.\<close>

definition submitCaught :: "'t dashboard \<times> 'w world \<Rightarrow> 't dashboard \<times> 'w world" where
  "submitCaught p =
     setToast Error ''Error adding task'' (fst p, console_error ''Error adding task:'' (snd p))"

text \<open>\<open>errorData.message || "Failed to add task"\<close>: \<open>undefined\<close> and \<open>""\<close> are falsy.\<close>

fun messageOrFallback :: "string option \<Rightarrow> string" where
  "messageOrFallback None = ''Failed to add task''"
| "messageOrFallback (Some m) = (if m = [] then ''Failed to add task'' else m)"

definition submitBody :: "'t dashboard \<Rightarrow> newTask" where
  "submitBody s =
     \<lparr>new_title = trim (taskTitle s), new_description = trim (taskDescription s),
      new_dueDate = dueDate_d s, new_priority = priority_d s, new_status = status s,
      new_tags = trim (tags s)\<rparr>"

definition handleSubmit :: "('w, 't) api \<Rightarrow> 't dashboard \<times> 'w world \<Rightarrow> 't dashboard \<times> 'w world" where
  "handleSubmit api p =
     (if trim (taskTitle (fst p)) = [] then setToast Error ''Task title is required'' p
      else
        (case send (POST (submitBody (fst p))) (post_task api (submitBody (fst p))) (snd p) of
           (Response True _, w1) \<Rightarrow>
             fetchTasks_d api (setToast Success ''Task added successfully!'' (resetForm (fst p), w1))
         | (Response False (Some (JsonValue m)), w1) \<Rightarrow>
             setToast Error (messageOrFallback m) (fst p, w1)
         | (_, w1) \<Rightarrow> submitCaught (fst p, w1)))"

section \<open>Concrete environments\<close>

text \<open>
  A runtime and three servers to run the components on: a server that keeps the tasks
  in a list and refuses to delete an id it does not hold, a server that is unreachable,
  and a server that answers every request with a non-success status.
\<close>

fun codeUnitCompare :: "string \<Rightarrow> string \<Rightarrow> int" where
  "codeUnitCompare [] [] = 0"
| "codeUnitCompare [] (y # ys) = - 1"
| "codeUnitCompare (x # xs) [] = 1"
| "codeUnitCompare (x # xs) (y # ys) =
     (if (of_char x :: nat) < of_char y then - 1
      else if (of_char y :: nat) < of_char x then 1
      else codeUnitCompare xs ys)"

definition demoGetTime :: "string \<Rightarrow> jsnum" where
  "demoGetTime d =
     (if d = ''2024-01-01'' then Num 1704067200000
      else if d = ''2024-03-15'' then Num 1710460800000
      else NaN)"

definition demoRuntime :: runtime where
  "demoRuntime = \<lparr>getTime = demoGetTime, localeCompare = codeUnitCompare\<rparr>"

definition storeGet :: "task list \<Rightarrow> task list response \<times> task list" where
  "storeGet db = (Response True (Some db), db)"

definition storePost :: "newTask \<Rightarrow> task list \<Rightarrow> errorData response \<times> task list" where
  "storePost body db =
     (Response True None,
      db @ [\<lparr>task_id = ''new'', title = new_title body,
             dueDate = (if new_dueDate body = [] then None else Some (new_dueDate body)),
             priority = (if new_priority body = [] then None else Some (new_priority body)),
             createdAt = ''2024-01-01'', updatedAt = ''2024-01-01''\<rparr>])"

definition storeDelete :: "string \<Rightarrow> task list \<Rightarrow> unit response \<times> task list" where
  "storeDelete i db =
     (if i \<in> set (map task_id db)
      then (Response True None, filter (\<lambda>t. task_id t \<noteq> i) db)
      else (Response False None, db))"

definition storeApi :: "(task list, task) api" where
  "storeApi = \<lparr>get_tasks = storeGet, post_task = storePost, delete_task = storeDelete\<rparr>"

definition offlineApi :: "(unit, task) api" where
  "offlineApi =
     \<lparr>get_tasks = Pair Rejected, post_task = (\<lambda>body. Pair Rejected),
      delete_task = (\<lambda>i. Pair Rejected)\<rparr>"

definition refusingApi :: "(unit, task) api" where
  "refusingApi =
     \<lparr>get_tasks = Pair (Response False None),
      post_task = (\<lambda>body. Pair (Response False (Some (JsonValue (Some ''Title too long''))))),
      delete_task = (\<lambda>i. Pair (Response False None))\<rparr>"

definition mkTask :: "string \<Rightarrow> string \<Rightarrow> string option \<Rightarrow> string option \<Rightarrow> task" where
  "mkTask i t d p =
     \<lparr>task_id = i, title = t, dueDate = d, priority = p,
      createdAt = ''2024-01-01'', updatedAt = ''2024-01-01''\<rparr>"

definition emptyForm :: "task dashboard" where
  "emptyForm =
     \<lparr>taskTitle = [], taskDescription = [], dueDate_d = [], priority_d = [],
      status = ''Not Started'', tags = [], currentDateTime = [], tasks_d = [], toast_d = None\<rparr>"

section \<open>Observations and scenarios\<close>

text \<open>
  Reading the request log: a delete or a creation succeeded when a response came
  with \<open>ok\<close> set; a fetch succeeded when, in addition, its body could be parsed.
\<close>

fun statusOk :: "outcome \<Rightarrow> bool" where
  "statusOk (Answered ok parsed) = ok"
| "statusOk NoResponse = False"

fun getOk :: "outcome \<Rightarrow> bool" where
  "getOk (Answered ok parsed) = (ok \<and> parsed)"
| "getOk NoResponse = False"

text \<open>
  A creation response whose body \<open>handleSubmit\<close> can read \<open>message\<close> from: it parses and
  is not \<open>null\<close>.
\<close>

fun errorBodyRead :: "errorData response \<Rightarrow> bool" where
  "errorBodyRead (Response ok (Some (JsonValue m))) = True"
| "errorBodyRead _ = False"

definition succeeded :: "(request \<times> outcome) list \<Rightarrow> nat" where
  "succeeded log = length (filter (\<lambda>e. statusOk (snd e)) log)"

definition failed :: "(request \<times> outcome) list \<Rightarrow> nat" where
  "failed log = length (filter (\<lambda>e. \<not> statusOk (snd e)) log)"

text \<open>The user actions of the Task Collection View that issue no request.\<close>

datatype uiEvent =
  ToggleSelection string | SelectAll | CancelSelection | SortClick SortOption | ToggleView

fun dispatch :: "runtime \<Rightarrow> tasksComponent \<Rightarrow> uiEvent \<Rightarrow> tasksComponent" where
  "dispatch rt s (ToggleSelection taskId) = toggleTaskSelection taskId s"
| "dispatch rt s SelectAll = selectAllTasks s"
| "dispatch rt s CancelSelection = cancelSelection s"
| "dispatch rt s (SortClick option) = handleSortClick rt option s"
| "dispatch rt s ToggleView = toggleViewMode s"

text \<open>
  A server holding three tasks, the component mounted on it, and the state after
  ``select all'' and ``delete selected'' (modal open). \<open>batchRun\<close> confirms that
  deletion on a server where another session has meanwhile deleted task 2;
  \<open>singleDeleteRun\<close> ticks task 1 and then deletes it with its own delete button.
\<close>

definition threeTasks :: "task list" where
  "threeTasks =
     [mkTask ''1'' ''B'' None (Some ''Low''),
      mkTask ''2'' ''A'' (Some ''2024-03-15'') (Some ''High''),
      mkTask ''3'' ''C'' (Some ''2024-01-01'') None]"

definition mounted :: "tasksComponent \<times> task list world" where
  "mounted = mount demoRuntime storeApi [] (fresh threeTasks)"

definition batchState :: tasksComponent where
  "batchState = openDeleteModal (selectAllTasks (fst mounted))"



definition singleDeleteRun :: "tasksComponent \<times> task list world" where
  "singleDeleteRun =
     handleDeleteTask demoRuntime storeApi ''1''
       (toggleTaskSelection ''1'' (fst mounted), snd mounted)"

text \<open>A filled creation form, and one whose title is white space only.\<close>

definition filledForm :: "task dashboard" where
  "filledForm =
     emptyForm\<lparr>taskTitle := '' Buy milk '', taskDescription := ''2 litres'',
       dueDate_d := ''2024-03-15'', priority_d := ''High'', status := ''In Progress'',
       tags := ''home''\<rparr>"

definition blankForm :: "task dashboard" where
  "blankForm = filledForm\<lparr>taskTitle := [CHR '' '', CHR 0x09, CHR '' '']\<rparr>"

section \<open>Verified properties\<close>

subsection \<open>Auxiliary facts\<close>

lemmas scenario_defs =
  mounted_def batchState_def threeTasks_def mkTask_def
  mount_def send_def storeApi_def storeGet_def storeDelete_def fresh_def initialState_def
  sortEffect_def sortTasks_def openDeleteModal_def closeDeleteModal_def selectAllTasks_def
  toggleTaskSelection_def handleDeleteTask_def fetchTasks_def showToast_def
  console_error_def deleteSelectedTasks_def toString.simps digitChar_def demoRuntime_def
  demoGetTime_def

lemma js_insert_elements:
  "set (js_insert cmp x ys) = insert x (set ys) \<and> length (js_insert cmp x ys) = Suc (length ys)"
  by (induction ys) auto

lemma js_sort_elements:
  "set (js_sort cmp xs) = set xs \<and> length (js_sort cmp xs) = length xs"
  by (induction xs) (simp_all add: js_sort_def js_insert_elements)

lemma send_eq:
  "send req answer w = (r, w1) \<Longrightarrow>
     network w1 = network w @ [(req, outcome_of r)] \<and> emitted w1 = emitted w
     \<and> console w1 = console w \<and> r = fst (answer (server w))
     \<and> server w1 = snd (answer (server w))"
  by (auto simp: send_def split: prod.splits)

lemma deleteLoop_log:
  "deleteLoop api ids (w, sc, ec) = (w', sc', ec') \<Longrightarrow>
     \<exists>dels. network w' = network w @ dels \<and> map fst dels = map DELETE ids
        \<and> sc' = sc + succeeded dels \<and> ec' = ec + failed dels
        \<and> emitted w' = emitted w
        \<and> length (console w') = length (console w) + failed dels"
proof (induction ids arbitrary: w sc ec)
  case Nil
  then show ?case by (simp add: succeeded_def failed_def)
next
  case (Cons i ids)
  obtain r w1 where snd1: "send (DELETE i) (delete_task api i) w = (r, w1)"
    by (cases "send (DELETE i) (delete_task api i) w") auto
  note s1 = send_eq[OF snd1]
  show ?case
  proof (cases "statusOk (outcome_of r)")
    case True
    then obtain b where r: "r = Response True b" by (cases r) auto
    with Cons.prems snd1 have "deleteLoop api ids (w1, sc + 1, ec) = (w', sc', ec')" by simp
    from Cons.IH[OF this] obtain dels where d:
      "network w' = network w1 @ dels" "map fst dels = map DELETE ids"
      "sc' = sc + 1 + succeeded dels" "ec' = ec + failed dels" "emitted w' = emitted w1"
      "length (console w') = length (console w1) + failed dels" by auto
    show ?thesis
      apply (rule exI[of _ "(DELETE i, outcome_of r) # dels"])
      using d s1 True by (simp add: succeeded_def failed_def)
  next
    case False
    then have "deleteLoop api ids
        (console_error (''Error deleting task '' @ i @ '':'') w1, sc, ec + 1) = (w', sc', ec')"
      using Cons.prems snd1 by (cases r) (auto split: bool.splits)
    from Cons.IH[OF this] obtain dels where d:
      "network w' = network w1 @ dels" "map fst dels = map DELETE ids"
      "sc' = sc + succeeded dels" "ec' = ec + 1 + failed dels" "emitted w' = emitted w1"
      "length (console w') = length (console w1) + 1 + failed dels"
      by (auto simp: console_error_def)
    show ?thesis
      apply (rule exI[of _ "(DELETE i, outcome_of r) # dels"])
      using d s1 False by (simp add: succeeded_def failed_def)
  qed
qed

lemma fetchTasks_settle_eq:
  "fetchTasks_settle rt r (s, w) = (s', w') \<Longrightarrow>
     selectedTasks s' = selectedTasks s \<and> tasksToDelete s' = tasksToDelete s
     \<and> isDeleteModalOpen s' = isDeleteModalOpen s \<and> viewMode s' = viewMode s
     \<and> currentSort s' = currentSort s
     \<and> network w' = network w \<and> server w' = server w
     \<and> emitted w' = emitted w @
          (if getOk (outcome_of r) then []
           else [\<lparr>message = ''Failed to fetch tasks'', toast_type = Error\<rparr>])
     \<and> console w' = console w @
          (if getOk (outcome_of r) then [] else [''Error fetching tasks:''])"
  by (cases r; cases "case r of Response ok body \<Rightarrow> ok | _ \<Rightarrow> False";
      cases "case r of Response ok body \<Rightarrow> body | _ \<Rightarrow> None")
     (auto simp: showToast_def console_error_def sortEffect_def sortTasks_def
           split: option.splits)

lemma deleteSelectedTasks_run:
  assumes run: "deleteSelectedTasks rt api (s, w) = (s', w')"
  shows "\<exists>dels out. network w' = network w @ dels @ [(GET, out)]
      \<and> map fst dels = map DELETE (tasksToDelete s)
      \<and> emitted w' = emitted w @
          (if 0 < succeeded dels
           then [\<lparr>message = ''Successfully deleted '' @ toString (succeeded dels) @ '' task(s)'',
                  toast_type = Success\<rparr>] else []) @
          (if 0 < failed dels
           then [\<lparr>message = ''Failed to delete '' @ toString (failed dels) @ '' task(s)'',
                  toast_type = Error\<rparr>] else []) @
          (if getOk out then []
           else [\<lparr>message = ''Failed to fetch tasks'', toast_type = Error\<rparr>])
      \<and> length (console w') = length (console w) + failed dels + (if getOk out then 0 else 1)
      \<and> selectedTasks s' = [] \<and> tasksToDelete s' = [] \<and> \<not> isDeleteModalOpen s'"
proof -
  obtain w1 sc ec where loop: "deleteLoop api (tasksToDelete s) (w, 0, 0) = (w1, sc, ec)"
    by (cases "deleteLoop api (tasksToDelete s) (w, 0, 0)") auto
  from deleteLoop_log[OF loop] obtain dels where d:
    "network w1 = network w @ dels" "map fst dels = map DELETE (tasksToDelete s)"
    "sc = succeeded dels" "ec = failed dels" "emitted w1 = emitted w"
    "length (console w1) = length (console w) + failed dels" by auto
  define p1 where "p1 =
    (if sc > 0
     then showToast (''Successfully deleted '' @ toString sc @ '' task(s)'') Success (s, w1)
     else (s, w1))"
  define p2 where "p2 =
    (if ec > 0
     then showToast (''Failed to delete '' @ toString ec @ '' task(s)'') Error p1
     else p1)"
  obtain r w3 where snd3: "send GET (get_tasks api) (snd p2) = (r, w3)"
    by (cases "send GET (get_tasks api) (snd p2)") auto
  have p2: "network (snd p2) = network w1" "console (snd p2) = console w1"
    "emitted (snd p2) = emitted w1 @
          (if 0 < sc
           then [\<lparr>message = ''Successfully deleted '' @ toString sc @ '' task(s)'',
                  toast_type = Success\<rparr>] else []) @
          (if 0 < ec
           then [\<lparr>message = ''Failed to delete '' @ toString ec @ '' task(s)'',
                  toast_type = Error\<rparr>] else [])"
    by (simp_all add: p1_def p2_def showToast_def)
  note s3 = send_eq[OF snd3]
  have "fetchTasks_settle rt r (closeDeleteModal ((fst p2)\<lparr>selectedTasks := []\<rparr>), w3) = (s', w')"
    using run
    unfolding deleteSelectedTasks_def Let_def fst_conv snd_conv loop prod.case
      p1_def[symmetric] p2_def[symmetric] snd3 .
  note f = fetchTasks_settle_eq[OF this]
  show ?thesis
    apply (rule exI[of _ dels], rule exI[of _ "outcome_of r"])
    using f s3 p2 d by (simp add: closeDeleteModal_def)
qed

lemma succeeded_failed_total:
  "map fst dels = map DELETE ids \<Longrightarrow> succeeded dels + failed dels = length ids"
proof -
  assume "map fst dels = map DELETE ids"
  then have "length dels = length ids" by (metis length_map)
  then show ?thesis by (simp add: succeeded_def failed_def sum_length_filter_compl)
qed

lemma dispatch_keeps_snapshot: "tasksToDelete (dispatch rt s e) = tasksToDelete s"
  by (cases e)
     (simp_all add: toggleTaskSelection_def selectAllTasks_def cancelSelection_def
        handleSortClick_def sortEffect_def sortTasks_def toggleViewMode_def
        split: option.splits)

lemma foldl_dispatch_keeps_snapshot:
  "tasksToDelete (foldl (dispatch rt) s evs) = tasksToDelete s"
  by (induction evs arbitrary: s) (simp_all add: dispatch_keeps_snapshot)

subsection \<open>Batch deletion\<close>



text \<open>
  C9. The ids whose delete requests go out on confirmation are those selected when
  the modal was opened, in that order: whatever the user toggles, selects, cancels,
  sorts or switches between opening the modal and confirming changes nothing, and the
  successes and failures together number as many as that snapshot.
\<close>

theorem batch_delete_uses_snapshot:
  assumes run: "deleteSelectedTasks rt api
                  (foldl (dispatch rt) (openDeleteModal s) evs, fresh sv) = (s', w')"
  shows "\<exists>dels out. network w' = dels @ [(GET, out)]
      \<and> map fst dels = map DELETE (selectedTasks s)
      \<and> succeeded dels + failed dels = length (selectedTasks s)"
proof -
  have snap: "tasksToDelete (foldl (dispatch rt) (openDeleteModal s) evs) = selectedTasks s"
    by (simp add: foldl_dispatch_keeps_snapshot openDeleteModal_def)
  from deleteSelectedTasks_run[OF run] obtain dels out where d:
    "network w' = network (fresh sv) @ dels @ [(GET, out)]"
    "map fst dels = map DELETE (selectedTasks s)"
    unfolding snap by blast
  from succeeded_failed_total[OF d(2)] d show ?thesis by (simp add: fresh_def)
qed

theorem batch_delete_uses_snapshot_witness:
  "selectedTasks (selectAllTasks (fst mounted)) = [''1'', ''2'', ''3'']
   \<and> selectedTasks (foldl (dispatch demoRuntime) batchState
        [ToggleSelection ''2'', CancelSelection, ToggleSelection ''3'']) = [''3'']
   \<and> (\<exists>dels out.
        network (snd (deleteSelectedTasks demoRuntime storeApi
          (foldl (dispatch demoRuntime) (openDeleteModal (selectAllTasks (fst mounted)))
             [ToggleSelection ''2'', CancelSelection, ToggleSelection ''3''],
           fresh threeTasks))) = dels @ [(GET, out)]
      \<and> map fst dels = map DELETE (selectedTasks (selectAllTasks (fst mounted)))
      \<and> succeeded dels + failed dels = length (selectedTasks (selectAllTasks (fst mounted))))"
proof -
  have sel: "selectedTasks (selectAllTasks (fst mounted)) = [''1'', ''2'', ''3'']"
    by (simp add: scenario_defs)
  have later: "selectedTasks (foldl (dispatch demoRuntime) batchState
        [ToggleSelection ''2'', CancelSelection, ToggleSelection ''3'']) = [''3'']"
    by (simp add: scenario_defs cancelSelection_def)
  from sel later
    batch_delete_uses_snapshot[of demoRuntime storeApi "selectAllTasks (fst mounted)"
      "[ToggleSelection ''2'', CancelSelection, ToggleSelection ''3'']" threeTasks,
      OF surjective_pairing]
  show ?thesis by blast
qed

subsection \<open>Selection and the displayed list\<close>

text \<open>
  Neither a fetch nor a single delete ever writes the selection, whatever the server
  answers.
\<close>

lemma fetchTasks_keeps_selection:
  "selectedTasks (fst (fetchTasks rt api (s, w))) = selectedTasks s"
proof -
  obtain r w1 where g: "send GET (get_tasks api) w = (r, w1)"
    by (cases "send GET (get_tasks api) w") auto
  from fetchTasks_settle_eq[of rt r s w1 "fst (fetchTasks_settle rt r (s, w1))"
      "snd (fetchTasks_settle rt r (s, w1))"]
  show ?thesis by (simp add: fetchTasks_def g)
qed

lemma handleDeleteTask_keeps_selection:
  "selectedTasks (fst (handleDeleteTask rt api taskId (s, w))) = selectedTasks s"
proof -
  obtain r w1 where g: "send (DELETE taskId) (delete_task api taskId) w = (r, w1)"
    by (cases "send (DELETE taskId) (delete_task api taskId) w") auto
  show ?thesis
    by (cases r)
       (auto simp: handleDeleteTask_def g showToast_def fetchTasks_keeps_selection
             split: bool.splits)
qed

text \<open>
  C2. After the component is mounted on three tasks and task 1 is ticked, the selection
  \<open>[1]\<close> lies within the displayed ids \<open>[1, 2, 3]\<close>. Deleting task 1 with its own delete
  button succeeds and re-fetches: the displayed ids become \<open>[2, 3]\<close>, while the selection
  is still \<open>[1]\<close>, an id that is no longer displayed.
\<close>

theorem single_delete_leaves_stale_selection:
  "selectedTasks (toggleTaskSelection ''1'' (fst mounted)) = [''1'']
   \<and> map task_id (tasks (toggleTaskSelection ''1'' (fst mounted))) = [''1'', ''2'', ''3'']
   \<and> emitted (snd singleDeleteRun) =
        [\<lparr>message = ''Task deleted successfully'', toast_type = Success\<rparr>]
   \<and> map fst (network (snd singleDeleteRun)) = [GET, DELETE ''1'', GET]
   \<and> map task_id (tasks (fst singleDeleteRun)) = [''2'', ''3'']
   \<and> selectedTasks (fst singleDeleteRun) = [''1'']
   \<and> ''1'' \<notin> set (map task_id (tasks (fst singleDeleteRun)))"
  by (simp add: singleDeleteRun_def scenario_defs)

subsection \<open>Sorting\<close>

text \<open>
  C3. Clicking a sort key that is not the active one activates it and sorts the
  working list with that key's comparator; clicking the same key again clears the sort
  and the displayed list is exactly the retained original order, which the two clicks
  leave untouched. This holds for every working list and every key.
\<close>

theorem sort_toggle_twice_restores_original_order:
  assumes "currentSort s \<noteq> Some option"
  shows "currentSort (handleSortClick rt option s) = Some option
     \<and> tasks (handleSortClick rt option s) = js_sort (compareTasks rt option) (tasks s)
     \<and> currentSort (handleSortClick rt option (handleSortClick rt option s)) = None
     \<and> tasks (handleSortClick rt option (handleSortClick rt option s)) = originalOrder s
     \<and> originalOrder (handleSortClick rt option (handleSortClick rt option s)) = originalOrder s"
  using assms by (simp add: handleSortClick_def sortEffect_def sortTasks_def)

theorem sort_toggle_twice_restores_original_order_witness:
  "currentSort (fst mounted) \<noteq> Some SortPriority
   \<and> map task_id (originalOrder (fst mounted)) = [''1'', ''2'', ''3'']
   \<and> map task_id (tasks (handleSortClick demoRuntime SortPriority (fst mounted)))
        = [''2'', ''1'', ''3'']
   \<and> tasks (handleSortClick demoRuntime SortPriority
        (handleSortClick demoRuntime SortPriority (fst mounted))) = originalOrder (fst mounted)"
proof -
  have inactive: "currentSort (fst mounted) \<noteq> Some SortPriority"
    by (simp add: scenario_defs)
  have fetched: "map task_id (originalOrder (fst mounted)) = [''1'', ''2'', ''3'']"
    by (simp add: scenario_defs)
  have once: "map task_id (tasks (handleSortClick demoRuntime SortPriority (fst mounted)))
        = [''2'', ''1'', ''3'']"
    by (simp add: scenario_defs handleSortClick_def js_sort_def priorityRank_def
          priorityOrder_def objectPrototypeKeys_def)
  from inactive fetched once
    sort_toggle_twice_restores_original_order[OF inactive, of demoRuntime]
  show ?thesis by simp
qed

text \<open>
  C4. The due-date comparator, for every pair of tasks: a task with a due date against
  a task without one gives \<open>-1\<close> (and \<open>1\<close> the other way round), so the dated task is
  placed first whichever of the two came first; two dated tasks whose dates denote the
  times \<open>ta\<close> and \<open>tb\<close> give \<open>tb - ta\<close>, so the task with the later date is placed first.
\<close>

theorem dueDate_comparator_order:
  "(truthy (dueDate a) \<and> \<not> truthy (dueDate b) \<longrightarrow>
      compareTasks rt SortDueDate a b = Num (- 1) \<and> compareTasks rt SortDueDate b a = Num 1
      \<and> js_sort (compareTasks rt SortDueDate) [a, b] = [a, b]
      \<and> js_sort (compareTasks rt SortDueDate) [b, a] = [a, b])
   \<and> (truthy (dueDate a) \<and> truthy (dueDate b)
        \<and> newDate_getTime rt (dueDate a) = Num ta
        \<and> newDate_getTime rt (dueDate b) = Num tb \<longrightarrow>
      compareTasks rt SortDueDate a b = Num (tb - ta)
      \<and> (tb < ta \<longrightarrow> js_sort (compareTasks rt SortDueDate) [a, b] = [a, b]
                    \<and> js_sort (compareTasks rt SortDueDate) [b, a] = [a, b]))"
  by (auto simp: js_sort_def)

theorem dueDate_comparator_order_witness:
  "(truthy (dueDate (threeTasks ! 2)) \<and> \<not> truthy (dueDate (threeTasks ! 0))
    \<and> js_sort (compareTasks demoRuntime SortDueDate) [threeTasks ! 0, threeTasks ! 2]
        = [threeTasks ! 2, threeTasks ! 0])
   \<and> (truthy (dueDate (threeTasks ! 1)) \<and> truthy (dueDate (threeTasks ! 2))
    \<and> newDate_getTime demoRuntime (dueDate (threeTasks ! 1)) = Num 1710460800000
    \<and> newDate_getTime demoRuntime (dueDate (threeTasks ! 2)) = Num 1704067200000
    \<and> (1704067200000 :: int) < 1710460800000
    \<and> compareTasks demoRuntime SortDueDate (threeTasks ! 1) (threeTasks ! 2)
        = Num (1704067200000 - 1710460800000)
    \<and> js_sort (compareTasks demoRuntime SortDueDate) [threeTasks ! 2, threeTasks ! 1]
        = [threeTasks ! 1, threeTasks ! 2])"
proof -
  have h1: "truthy (dueDate (threeTasks ! 2)) \<and> \<not> truthy (dueDate (threeTasks ! 0))"
    by (simp add: threeTasks_def mkTask_def)
  have h2: "truthy (dueDate (threeTasks ! 1)) \<and> truthy (dueDate (threeTasks ! 2))
      \<and> newDate_getTime demoRuntime (dueDate (threeTasks ! 1)) = Num 1710460800000
      \<and> newDate_getTime demoRuntime (dueDate (threeTasks ! 2)) = Num 1704067200000"
    by (simp add: threeTasks_def mkTask_def demoRuntime_def demoGetTime_def)
  from h1 h2
    dueDate_comparator_order[of "threeTasks ! 2" "threeTasks ! 0" demoRuntime]
    dueDate_comparator_order[of "threeTasks ! 1" "threeTasks ! 2" demoRuntime
      1710460800000 1704067200000]
  show ?thesis by simp
qed

text \<open>
  C10. In the due-date comparator a task whose due date is the empty string compares
  exactly as the same task with no due date does, on either side of any other task: it
  is placed after every task with a due date and ties with every task that has none or
  an empty one.
\<close>

theorem empty_dueDate_compares_as_absent:
  assumes "dueDate a = Some []"
  shows "compareTasks rt SortDueDate a b = compareTasks rt SortDueDate (a\<lparr>dueDate := None\<rparr>) b
     \<and> compareTasks rt SortDueDate b a = compareTasks rt SortDueDate b (a\<lparr>dueDate := None\<rparr>)
     \<and> (truthy (dueDate b) \<longrightarrow>
          compareTasks rt SortDueDate a b = Num 1 \<and> compareTasks rt SortDueDate b a = Num (- 1)
          \<and> js_sort (compareTasks rt SortDueDate) [a, b] = [b, a]
          \<and> js_sort (compareTasks rt SortDueDate) [b, a] = [b, a])
     \<and> (\<not> truthy (dueDate b) \<longrightarrow>
          compareTasks rt SortDueDate a b = Num 0 \<and> compareTasks rt SortDueDate b a = Num 0)"
  using assms by (auto simp: js_sort_def)

theorem empty_dueDate_compares_as_absent_witness:
  "dueDate (mkTask ''4'' ''D'' (Some []) None) = Some []
   \<and> truthy (dueDate (threeTasks ! 1)) \<and> \<not> truthy (dueDate (threeTasks ! 0))
   \<and> compareTasks demoRuntime SortDueDate (mkTask ''4'' ''D'' (Some []) None) (threeTasks ! 1)
       = Num 1
   \<and> js_sort (compareTasks demoRuntime SortDueDate)
       [mkTask ''4'' ''D'' (Some []) None, threeTasks ! 1]
       = [threeTasks ! 1, mkTask ''4'' ''D'' (Some []) None]
   \<and> compareTasks demoRuntime SortDueDate (mkTask ''4'' ''D'' (Some []) None) (threeTasks ! 0)
       = Num 0"
proof -
  have e: "dueDate (mkTask ''4'' ''D'' (Some []) None) = Some []"
    by (simp add: mkTask_def)
  have d: "truthy (dueDate (threeTasks ! 1)) \<and> \<not> truthy (dueDate (threeTasks ! 0))"
    by (simp add: threeTasks_def mkTask_def)
  from e d
    empty_dueDate_compares_as_absent[OF e, of demoRuntime "threeTasks ! 1"]
    empty_dueDate_compares_as_absent[OF e, of demoRuntime "threeTasks ! 0"]
  show ?thesis by simp
qed

text \<open>
  C5. The priority comparator ranks \<open>High\<close> 3, \<open>Medium\<close> 2, \<open>Low\<close> 1 and an absent
  priority 0, and every other priority string 0 as well, provided the string is not the
  name of a property that object literals inherit from \<open>Object.prototype\<close>; what
  happens for those names is not part of the statement. Two tasks
  with numeric ranks \<open>ra\<close> and \<open>rb\<close> compare as \<open>rb - ra\<close>, so the higher rank is placed
  first.
\<close>

theorem priority_comparator_ranks:
  "priorityRank (Some ''High'') = JNumber 3
   \<and> priorityRank (Some ''Medium'') = JNumber 2
   \<and> priorityRank (Some ''Low'') = JNumber 1
   \<and> priorityRank None = JNumber 0
   \<and> (p \<notin> {''High'', ''Medium'', ''Low''} \<and> p \<notin> set objectPrototypeKeys \<longrightarrow>
        priorityRank (Some p) = JNumber 0)
   \<and> (priorityRank (priority a) = JNumber ra \<and> priorityRank (priority b) = JNumber rb \<longrightarrow>
        compareTasks rt SortPriority a b = Num (rb - ra)
        \<and> (rb < ra \<longrightarrow> js_sort (compareTasks rt SortPriority) [a, b] = [a, b]
                      \<and> js_sort (compareTasks rt SortPriority) [b, a] = [a, b]))"
  by (simp add: priorityRank_def priorityOrder_def js_sort_def)

theorem priority_comparator_ranks_witness:
  "''Urgent'' \<notin> {''High'', ''Medium'', ''Low''} \<and> ''Urgent'' \<notin> set objectPrototypeKeys
   \<and> priorityRank (Some ''Urgent'') = JNumber 0
   \<and> priorityRank (priority (threeTasks ! 1)) = JNumber 3
   \<and> priorityRank (priority (threeTasks ! 0)) = JNumber 1
   \<and> (1 :: int) < 3
   \<and> compareTasks demoRuntime SortPriority (threeTasks ! 1) (threeTasks ! 0) = Num (1 - 3)
   \<and> js_sort (compareTasks demoRuntime SortPriority) [threeTasks ! 0, threeTasks ! 1]
       = [threeTasks ! 1, threeTasks ! 0]"
proof -
  have u: "''Urgent'' \<notin> {''High'', ''Medium'', ''Low''} \<and> ''Urgent'' \<notin> set objectPrototypeKeys"
    by (simp add: objectPrototypeKeys_def)
  have r: "priorityRank (priority (threeTasks ! 1)) = JNumber 3
      \<and> priorityRank (priority (threeTasks ! 0)) = JNumber 1"
    by (simp add: threeTasks_def mkTask_def priorityRank_def priorityOrder_def)
  from u r
    priority_comparator_ranks[of "''Urgent''" "threeTasks ! 1" 3 "threeTasks ! 0" 1 demoRuntime]
  show ?thesis by simp
qed

text \<open>
  C5 as stated does not hold for every unrecognized value. The priority
  \<open>"constructor"\<close> is none of \<open>High\<close>, \<open>Medium\<close>, \<open>Low\<close>, yet its rank is
  not 0: the lookup finds the inherited \<open>constructor\<close> function. Against a \<open>High\<close> task
  the comparator gives \<open>NaN\<close>, a tie, where an absent priority gives \<open>-3\<close>.
\<close>

theorem inherited_key_priority_not_ranked_zero:
  "priorityRank (Some ''constructor'') = JObject
   \<and> priorityRank (Some ''constructor'') \<noteq> priorityRank None
   \<and> compareTasks demoRuntime SortPriority
        (mkTask ''1'' ''A'' None (Some ''High'')) (mkTask ''2'' ''B'' None (Some ''constructor''))
      = NaN
   \<and> compareTasks demoRuntime SortPriority
        (mkTask ''1'' ''A'' None (Some ''High'')) (mkTask ''2'' ''B'' None None)
      = Num (- 3)"
  by (simp add: priorityRank_def priorityOrder_def objectPrototypeKeys_def mkTask_def)

subsection \<open>The creation form\<close>

lemma trim_blank: "(\<forall>c\<in>set t. isWhiteSpace c) \<Longrightarrow> trim t = []"
  by (auto simp: trim_def dest: set_dropWhileD)


lemma handleSubmit_sent:
  assumes "trim (taskTitle s) \<noteq> []" and "post_task api (submitBody s) (server w) = (r, sv1)"
  shows "handleSubmit api (s, w) =
     (case r of
        Response True body \<Rightarrow>
          fetchTasks_d api (setToast Success ''Task added successfully!''
            (resetForm s,
             w\<lparr>server := sv1, network := network w @ [(POST (submitBody s), outcome_of r)]\<rparr>))
      | Response False (Some (JsonValue m)) \<Rightarrow>
          setToast Error (messageOrFallback m)
            (s, w\<lparr>server := sv1, network := network w @ [(POST (submitBody s), outcome_of r)]\<rparr>)
      | _ \<Rightarrow>
          submitCaught
            (s, w\<lparr>server := sv1, network := network w @ [(POST (submitBody s), outcome_of r)]\<rparr>))"
  using assms
  by (simp add: handleSubmit_def send_def
        split: response.splits bool.splits option.splits errorData.splits)

lemma fetchTasks_d_eq:
  assumes "fetchTasks_d api (s, w) = (s', w')"
  shows "taskTitle s' = taskTitle s \<and> taskDescription s' = taskDescription s
     \<and> dueDate_d s' = dueDate_d s \<and> priority_d s' = priority_d s \<and> status s' = status s
     \<and> tags s' = tags s \<and> toast_d s' = toast_d s \<and> emitted w' = emitted w
     \<and> (\<exists>out. network w' = network w @ [(GET, out)]
          \<and> out = outcome_of (fst (get_tasks api (server w)))
          \<and> (\<not> getOk out \<longrightarrow> s' = s \<and> length (console w') = length (console w) + 1)
          \<and> (getOk out \<longrightarrow> console w' = console w))"
  using assms
  by (auto simp: fetchTasks_d_def send_def console_error_def
        split: prod.splits response.splits bool.splits option.splits)

text \<open>
  C7. Submitting the creation form while the title is empty or white space only:
  the result is the state as it was, with the toast ``Task title is required'' of kind
  error set and emitted; no request is issued and every form field keeps its value.
\<close>

theorem blank_title_rejected_without_request:
  assumes "\<forall>c\<in>set (taskTitle s). isWhiteSpace c"
  shows "handleSubmit api (s, w) =
       (s\<lparr>toast_d := Some \<lparr>message = ''Task title is required'', toast_type = Error\<rparr>\<rparr>,
        w\<lparr>emitted := emitted w @ [\<lparr>message = ''Task title is required'', toast_type = Error\<rparr>]\<rparr>)
     \<and> network (snd (handleSubmit api (s, w))) = network w
     \<and> taskTitle (fst (handleSubmit api (s, w))) = taskTitle s
     \<and> taskDescription (fst (handleSubmit api (s, w))) = taskDescription s
     \<and> dueDate_d (fst (handleSubmit api (s, w))) = dueDate_d s
     \<and> priority_d (fst (handleSubmit api (s, w))) = priority_d s
     \<and> status (fst (handleSubmit api (s, w))) = status s
     \<and> tags (fst (handleSubmit api (s, w))) = tags s"
  using trim_blank[OF assms] by (simp add: handleSubmit_def setToast_def)

theorem blank_title_rejected_without_request_witness:
  "list_all isWhiteSpace (taskTitle blankForm)
   \<and> list_all isWhiteSpace (taskTitle emptyForm)
   \<and> taskTitle blankForm \<noteq> []
   \<and> network (snd (handleSubmit storeApi (blankForm, fresh threeTasks))) = []
   \<and> emitted (snd (handleSubmit storeApi (blankForm, fresh threeTasks)))
       = [\<lparr>message = ''Task title is required'', toast_type = Error\<rparr>]
   \<and> taskDescription (fst (handleSubmit storeApi (blankForm, fresh threeTasks))) = ''2 litres''
   \<and> network (snd (handleSubmit storeApi (emptyForm, fresh threeTasks))) = []"
proof -
  have b: "\<forall>c\<in>set (taskTitle blankForm). isWhiteSpace c"
    by (simp add: blankForm_def filledForm_def emptyForm_def isWhiteSpace_def)
  have e: "\<forall>c\<in>set (taskTitle emptyForm). isWhiteSpace c"
    by (simp add: emptyForm_def)
  from b e
    blank_title_rejected_without_request[OF b, of storeApi "fresh threeTasks"]
    blank_title_rejected_without_request[OF e, of storeApi "fresh threeTasks"]
  show ?thesis
    by (simp add: fresh_def blankForm_def filledForm_def emptyForm_def list_all_iff)
qed



subsection \<open>Failures of network operations\<close>

lemma fetchTasks_failed:
  assumes "\<not> getOk (outcome_of (fst (get_tasks api (server w))))"
  shows "emitted (snd (fetchTasks rt api (s, w)))
       = emitted w @ [\<lparr>message = ''Failed to fetch tasks'', toast_type = Error\<rparr>]
     \<and> toast (fst (fetchTasks rt api (s, w)))
       = Some \<lparr>message = ''Failed to fetch tasks'', toast_type = Error\<rparr>
     \<and> console (snd (fetchTasks rt api (s, w))) = console w @ [''Error fetching tasks:'']
     \<and> tasks (fst (fetchTasks rt api (s, w))) = tasks s
     \<and> originalOrder (fst (fetchTasks rt api (s, w))) = originalOrder s"
proof -
  obtain r sv where g: "get_tasks api (server w) = (r, sv)"
    by (cases "get_tasks api (server w)") auto
  with assms have bad: "\<not> getOk (outcome_of r)" by simp
  then show ?thesis
    by (cases r; cases "case r of Response ok body \<Rightarrow> ok | _ \<Rightarrow> False";
        cases "case r of Response ok body \<Rightarrow> body | _ \<Rightarrow> None")
       (auto simp: fetchTasks_def send_def g showToast_def console_error_def)
qed

lemma handleDeleteTask_failed:
  assumes "\<not> statusOk (outcome_of (fst (delete_task api i (server w))))"
  shows "emitted (snd (handleDeleteTask rt api i (s, w)))
       = emitted w @ [\<lparr>message = ''Failed to delete task'', toast_type = Error\<rparr>]
     \<and> toast (fst (handleDeleteTask rt api i (s, w)))
       = Some \<lparr>message = ''Failed to delete task'', toast_type = Error\<rparr>
     \<and> console (snd (handleDeleteTask rt api i (s, w)))
       = console w @ [''Error deleting task '' @ i @ '':'']
     \<and> tasks (fst (handleDeleteTask rt api i (s, w))) = tasks s"
proof -
  obtain r sv where g: "delete_task api i (server w) = (r, sv)"
    by (cases "delete_task api i (server w)") auto
  with assms have bad: "\<not> statusOk (outcome_of r)" by simp
  then show ?thesis
    by (cases r)
       (auto simp: handleDeleteTask_def send_def g showToast_def console_error_def
             split: bool.splits)
qed

lemma handleSubmit_failed:
  assumes "trim (taskTitle d) \<noteq> []"
    and "\<not> statusOk (outcome_of (fst (post_task api (submitBody d) (server w))))"
  shows "(\<exists>msg. emitted (snd (handleSubmit api (d, w)))
          = emitted w @ [\<lparr>message = msg, toast_type = Error\<rparr>]
       \<and> toast_d (fst (handleSubmit api (d, w))) = Some \<lparr>message = msg, toast_type = Error\<rparr>)
     \<and> console (snd (handleSubmit api (d, w))) = console w @
         (if errorBodyRead (fst (post_task api (submitBody d) (server w))) then []
          else [''Error adding task:''])"
proof -
  obtain r sv where g: "post_task api (submitBody d) (server w) = (r, sv)"
    by (cases "post_task api (submitBody d) (server w)") auto
  with assms have bad: "\<not> statusOk (outcome_of r)" by simp
  with handleSubmit_sent[OF assms(1) g] show ?thesis
    by (cases r)
       (auto simp: g setToast_def submitCaught_def console_error_def
             split: bool.splits option.splits errorData.splits)
qed

text \<open>
  C6 as stated does not hold for the Dashboard. Its failed fetch, unreachable server
  or non-success status alike, emits no toast and leaves none showing: the failure is only logged. A creation that
  the server refuses with a readable error body is shown as a toast but not logged.
\<close>

theorem dashboard_fetch_failure_emits_no_toast:
  "emitted (snd (fetchTasks_d offlineApi (emptyForm, fresh ()))) = []
   \<and> toast_d (fst (fetchTasks_d offlineApi (emptyForm, fresh ()))) = None
   \<and> console (snd (fetchTasks_d offlineApi (emptyForm, fresh ()))) = [''Error fetching tasks:'']
   \<and> emitted (snd (fetchTasks_d refusingApi (emptyForm, fresh ()))) = []
   \<and> toast_d (fst (fetchTasks_d refusingApi (emptyForm, fresh ()))) = None
   \<and> console (snd (fetchTasks_d refusingApi (emptyForm, fresh ()))) = [''Failed to fetch tasks'']
   \<and> emitted (snd (handleSubmit refusingApi (filledForm, fresh ())))
        = [\<lparr>message = ''Title too long'', toast_type = Error\<rparr>]
   \<and> console (snd (handleSubmit refusingApi (filledForm, fresh ()))) = []"
  by (simp add: fetchTasks_d_def handleSubmit_def send_def offlineApi_def refusingApi_def
        emptyForm_def filledForm_def fresh_def console_error_def setToast_def trim_def
        isWhiteSpace_def)

text \<open>
  C6, as the code has it. No failure escapes a handler. In the Task Collection View a
  failed fetch is logged and emits the error toast ``Failed to fetch tasks'' with the
  lists untouched; a failed single delete is logged and emits ``Failed to delete task'';
  a batch delete logs one line per failed delete and emits the error toast with their
  count when there is one, and a failure of its re-fetch is logged and shown in turn.
  In the Dashboard a failed creation emits exactly one error toast, and is logged with
  one line unless the response carries an error body that parses and is not \<open>null\<close>,
  in which case nothing is logged; a failed fetch changes no state, emits no toast and
  is logged with one line.
\<close>

theorem network_failures_caught:
  "(\<not> getOk (outcome_of (fst (get_tasks api (server w)))) \<longrightarrow>
       emitted (snd (fetchTasks rt api (s, w)))
         = emitted w @ [\<lparr>message = ''Failed to fetch tasks'', toast_type = Error\<rparr>]
     \<and> toast (fst (fetchTasks rt api (s, w)))
         = Some \<lparr>message = ''Failed to fetch tasks'', toast_type = Error\<rparr>
     \<and> console (snd (fetchTasks rt api (s, w))) = console w @ [''Error fetching tasks:'']
     \<and> tasks (fst (fetchTasks rt api (s, w))) = tasks s
     \<and> originalOrder (fst (fetchTasks rt api (s, w))) = originalOrder s)
   \<and> (\<not> statusOk (outcome_of (fst (delete_task api i (server w)))) \<longrightarrow>
       emitted (snd (handleDeleteTask rt api i (s, w)))
         = emitted w @ [\<lparr>message = ''Failed to delete task'', toast_type = Error\<rparr>]
     \<and> toast (fst (handleDeleteTask rt api i (s, w)))
         = Some \<lparr>message = ''Failed to delete task'', toast_type = Error\<rparr>
     \<and> console (snd (handleDeleteTask rt api i (s, w)))
         = console w @ [''Error deleting task '' @ i @ '':'']
     \<and> tasks (fst (handleDeleteTask rt api i (s, w))) = tasks s)
   \<and> (deleteSelectedTasks rt api (s, w) = (s', w') \<longrightarrow>
       (\<exists>dels out. network w' = network w @ dels @ [(GET, out)]
          \<and> length (console w') = length (console w) + failed dels + (if getOk out then 0 else 1)
          \<and> (0 < failed dels \<longrightarrow>
               \<lparr>message = ''Failed to delete '' @ toString (failed dels) @ '' task(s)'',
                toast_type = Error\<rparr> \<in> set (emitted w'))
          \<and> (\<not> getOk out \<longrightarrow>
               \<lparr>message = ''Failed to fetch tasks'', toast_type = Error\<rparr> \<in> set (emitted w'))))
   \<and> (trim (taskTitle d) \<noteq> []
        \<and> \<not> statusOk (outcome_of (fst (post_task api (submitBody d) (server w)))) \<longrightarrow>
       (\<exists>msg. emitted (snd (handleSubmit api (d, w)))
                 = emitted w @ [\<lparr>message = msg, toast_type = Error\<rparr>]
          \<and> toast_d (fst (handleSubmit api (d, w)))
                 = Some \<lparr>message = msg, toast_type = Error\<rparr>)
     \<and> console (snd (handleSubmit api (d, w))) = console w @
         (if errorBodyRead (fst (post_task api (submitBody d) (server w))) then []
          else [''Error adding task:'']))
   \<and> (\<not> getOk (outcome_of (fst (get_tasks api (server w)))) \<longrightarrow>
       fst (fetchTasks_d api (d, w)) = d
     \<and> emitted (snd (fetchTasks_d api (d, w))) = emitted w
     \<and> length (console (snd (fetchTasks_d api (d, w)))) = length (console w) + 1)"
proof -
  have batch: "deleteSelectedTasks rt api (s, w) = (s', w') \<longrightarrow>
       (\<exists>dels out. network w' = network w @ dels @ [(GET, out)]
          \<and> length (console w') = length (console w) + failed dels + (if getOk out then 0 else 1)
          \<and> (0 < failed dels \<longrightarrow>
               \<lparr>message = ''Failed to delete '' @ toString (failed dels) @ '' task(s)'',
                toast_type = Error\<rparr> \<in> set (emitted w'))
          \<and> (\<not> getOk out \<longrightarrow>
               \<lparr>message = ''Failed to fetch tasks'', toast_type = Error\<rparr> \<in> set (emitted w')))"
  proof
    assume "deleteSelectedTasks rt api (s, w) = (s', w')"
    from deleteSelectedTasks_run[OF this] obtain dels out where d:
      "network w' = network w @ dels @ [(GET, out)]"
      "emitted w' = emitted w @
          (if 0 < succeeded dels
           then [\<lparr>message = ''Successfully deleted '' @ toString (succeeded dels) @ '' task(s)'',
                  toast_type = Success\<rparr>] else []) @
          (if 0 < failed dels
           then [\<lparr>message = ''Failed to delete '' @ toString (failed dels) @ '' task(s)'',
                  toast_type = Error\<rparr>] else []) @
          (if getOk out then []
           else [\<lparr>message = ''Failed to fetch tasks'', toast_type = Error\<rparr>])"
      "length (console w') = length (console w) + failed dels + (if getOk out then 0 else 1)"
      by blast
    show "\<exists>dels out. network w' = network w @ dels @ [(GET, out)]
          \<and> length (console w') = length (console w) + failed dels + (if getOk out then 0 else 1)
          \<and> (0 < failed dels \<longrightarrow>
               \<lparr>message = ''Failed to delete '' @ toString (failed dels) @ '' task(s)'',
                toast_type = Error\<rparr> \<in> set (emitted w'))
          \<and> (\<not> getOk out \<longrightarrow>
               \<lparr>message = ''Failed to fetch tasks'', toast_type = Error\<rparr> \<in> set (emitted w'))"
      apply (rule exI[of _ dels], rule exI[of _ out])
      using d by simp
  qed
  have dash: "\<not> getOk (outcome_of (fst (get_tasks api (server w)))) \<longrightarrow>
       fst (fetchTasks_d api (d, w)) = d
     \<and> emitted (snd (fetchTasks_d api (d, w))) = emitted w
     \<and> length (console (snd (fetchTasks_d api (d, w)))) = length (console w) + 1"
    using fetchTasks_d_eq[of api d w "fst (fetchTasks_d api (d, w))" "snd (fetchTasks_d api (d, w))"]
    by auto
  from fetchTasks_failed[of api w rt s] handleDeleteTask_failed[of api i w rt s]
    handleSubmit_failed[of d api w] batch dash
  show ?thesis by blast
qed

theorem network_failures_caught_witness:
  "\<not> getOk (outcome_of (fst (get_tasks offlineApi (server (fresh ())))))
   \<and> \<not> statusOk (outcome_of (fst (delete_task offlineApi ''1'' (server (fresh ())))))
   \<and> trim (taskTitle filledForm) \<noteq> []
   \<and> \<not> statusOk (outcome_of (fst (post_task offlineApi (submitBody filledForm) (server (fresh ())))))
   \<and> emitted (snd (fetchTasks demoRuntime offlineApi (batchState, fresh ())))
        = [\<lparr>message = ''Failed to fetch tasks'', toast_type = Error\<rparr>]
   \<and> emitted (snd (handleDeleteTask demoRuntime offlineApi ''1'' (batchState, fresh ())))
        = [\<lparr>message = ''Failed to delete task'', toast_type = Error\<rparr>]
   \<and> console (snd (handleDeleteTask demoRuntime offlineApi ''1'' (batchState, fresh ())))
        = [''Error deleting task 1:'']
   \<and> emitted (snd (deleteSelectedTasks demoRuntime offlineApi (batchState, fresh ())))
        = [\<lparr>message = ''Failed to delete 3 task(s)'', toast_type = Error\<rparr>,
           \<lparr>message = ''Failed to fetch tasks'', toast_type = Error\<rparr>]
   \<and> length (console (snd (deleteSelectedTasks demoRuntime offlineApi (batchState, fresh ())))) = 4
   \<and> emitted (snd (handleSubmit offlineApi (filledForm, fresh ())))
        = [\<lparr>message = ''Error adding task'', toast_type = Error\<rparr>]
   \<and> console (snd (handleSubmit offlineApi (filledForm, fresh ()))) = [''Error adding task:'']
   \<and> \<not> statusOk (outcome_of (fst (post_task refusingApi (submitBody filledForm) (server (fresh ())))))
   \<and> errorBodyRead (fst (post_task refusingApi (submitBody filledForm) (server (fresh ()))))
   \<and> console (snd (handleSubmit refusingApi (filledForm, fresh ()))) = []
   \<and> fst (fetchTasks_d offlineApi (filledForm, fresh ())) = filledForm
   \<and> emitted (snd (fetchTasks_d offlineApi (filledForm, fresh ()))) = []
   \<and> length (console (snd (fetchTasks_d offlineApi (filledForm, fresh ())))) = 1"
proof -
  have h: "\<not> getOk (outcome_of (fst (get_tasks offlineApi (server (fresh ())))))
     \<and> \<not> statusOk (outcome_of (fst (delete_task offlineApi ''1'' (server (fresh ())))))
     \<and> trim (taskTitle filledForm) \<noteq> []
     \<and> \<not> statusOk (outcome_of (fst (post_task offlineApi (submitBody filledForm) (server (fresh ())))))"
    by (simp add: offlineApi_def fresh_def filledForm_def emptyForm_def trim_def isWhiteSpace_def)
  have batch: "emitted (snd (deleteSelectedTasks demoRuntime offlineApi (batchState, fresh ())))
        = [\<lparr>message = ''Failed to delete 3 task(s)'', toast_type = Error\<rparr>,
           \<lparr>message = ''Failed to fetch tasks'', toast_type = Error\<rparr>]
     \<and> length (console (snd (deleteSelectedTasks demoRuntime offlineApi (batchState, fresh ())))) = 4"
    by (simp add: scenario_defs offlineApi_def)
  have submit: "emitted (snd (handleSubmit offlineApi (filledForm, fresh ())))
        = [\<lparr>message = ''Error adding task'', toast_type = Error\<rparr>]"
    by (simp add: handleSubmit_def send_def offlineApi_def filledForm_def emptyForm_def
          fresh_def console_error_def setToast_def submitCaught_def trim_def isWhiteSpace_def)
  have h2: "\<not> statusOk (outcome_of (fst (post_task refusingApi (submitBody filledForm) (server (fresh ())))))
     \<and> errorBodyRead (fst (post_task refusingApi (submitBody filledForm) (server (fresh ()))))"
    by (simp add: refusingApi_def)
  from h h2 batch submit
    network_failures_caught[where api = offlineApi and w = "fresh ()" and rt = demoRuntime
      and s = batchState and i = "''1''" and d = filledForm
      and s' = "fst (deleteSelectedTasks demoRuntime offlineApi (batchState, fresh ()))"
      and w' = "snd (deleteSelectedTasks demoRuntime offlineApi (batchState, fresh ()))"]
    network_failures_caught[where api = refusingApi and w = "fresh ()" and rt = demoRuntime
      and s = batchState and i = "''1''" and d = filledForm
      and s' = "fst (deleteSelectedTasks demoRuntime refusingApi (batchState, fresh ()))"
      and w' = "snd (deleteSelectedTasks demoRuntime refusingApi (batchState, fresh ()))"]
  show ?thesis by (simp add: fresh_def offlineApi_def)
qed

end
